theory Spec2Isabelle
  imports Main "HOL-Library.AList"
begin

section \<open>HubSpot controllers: a shallow embedding of \<^verbatim>\<open>src/hubspot/controllers.js\<close>\<close>

subsection \<open>JavaScript values and objects\<close>

text \<open>
  The values that occur in contact properties and in the formatted output. \<open>JInherited n\<close>
  is the member \<open>n\<close> that every object inherits from \<^verbatim>\<open>Object.prototype\<close>: a function, or
  the prototype itself for \<^verbatim>\<open>__proto__\<close>. An object literal is an association list in
  insertion order: a key bound to \<open>JUndefined\<close> is still a key of the object, a key that is
  not in the list is absent.
\<close>

datatype jsval = JUndefined | JNull | JNum int | JStr string | JInherited string

type_synonym jsobj = "(string \<times> jsval) list"

datatype error = TypeError

fun truthy :: "jsval \<Rightarrow> bool" where
  "truthy JUndefined = False"
| "truthy JNull = False"
| "truthy (JNum n) = (n \<noteq> 0)"
| "truthy (JStr s) = (s \<noteq> [])"
| "truthy (JInherited n) = True"

text \<open>\<^verbatim>\<open>a || b\<close> on values.\<close>

definition js_or :: "jsval \<Rightarrow> jsval \<Rightarrow> jsval" where
  "js_or a b = (if truthy a then a else b)"

text \<open>
  \<^verbatim>\<open>p && p.value\<close> for a property \<open>p\<close> of \<^verbatim>\<open>contact.properties\<close>: a property that is
  absent is \<^verbatim>\<open>undefined\<close>, a property object is truthy and gives its \<^verbatim>\<open>value\<close>.
\<close>

definition and_value :: "jsval option \<Rightarrow> jsval" where
  "and_value p = (case p of None \<Rightarrow> JUndefined | Some v \<Rightarrow> v)"

text \<open>\<^verbatim>\<open>{...a, ...b}\<close>: the keys of \<open>b\<close> are written into \<open>a\<close> one after the other.\<close>

definition spread :: "jsobj \<Rightarrow> jsobj \<Rightarrow> jsobj" where
  "spread a b = fold (\<lambda>(k, v). AList.update k v) b a"

text \<open>The names of the members of \<^verbatim>\<open>Object.prototype\<close>.\<close>

definition Object_prototype :: "string list" where
  "Object_prototype =
     [''constructor'', ''__defineGetter__'', ''__defineSetter__'', ''hasOwnProperty'',
      ''__lookupGetter__'', ''__lookupSetter__'', ''isPrototypeOf'', ''propertyIsEnumerable'',
      ''toString'', ''valueOf'', ''__proto__'', ''toLocaleString'']"

text \<open>
  An object literal that is only read by key, with strings as its own values, is a map of
  its own keys. \<^verbatim>\<open>obj[key]\<close> answers the own value; for a key that the object does not
  have itself it answers the member of that name inherited from \<^verbatim>\<open>Object.prototype\<close>, and
  \<^verbatim>\<open>undefined\<close> when there is none.
\<close>

definition get_prop :: "(string \<rightharpoonup> string) \<Rightarrow> string \<Rightarrow> jsval" where
  "get_prop obj k =
     (case obj k of
        Some s \<Rightarrow> JStr s
      | None \<Rightarrow> if k \<in> set Object_prototype then JInherited k else JUndefined)"

subsection \<open>Numbers as text\<close>

definition digit :: "nat \<Rightarrow> char" where
  "digit d = ''0123456789'' ! d"

fun digits :: "nat \<Rightarrow> string" where
  "digits n = (if n < 10 then [digit n] else digits (n div 10) @ [digit (n mod 10)])"

declare digits.simps [simp del]

text \<open>\<^verbatim>\<open>String(num)\<close> for an integer.\<close>

definition js_String :: "int \<Rightarrow> string" where
  "js_String i = (if i < 0 then CHR ''-'' # digits (nat (- i)) else digits (nat i))"

text \<open>\<^verbatim>\<open>s.padStart(n, c)\<close> for a one-character pad.\<close>

definition padStart :: "nat \<Rightarrow> char \<Rightarrow> string \<Rightarrow> string" where
  "padStart n c s = replicate (n - length s) c @ s"

subsection \<open>Data model\<close>

text \<open>An entry of \<^verbatim>\<open>contactsData.contacts\<close> (the recent-contacts listing).\<close>

record contact_summary =
  summary_vid :: int
  summary_addedAt :: int

record form_submission =
  page_url :: jsval

text \<open>
  A record of the batch endpoint. \<open>properties c k = Some v\<close> says that
  \<^verbatim>\<open>c.properties[k]\<close> is a property object whose \<^verbatim>\<open>value\<close> is \<open>v\<close>; \<open>None\<close> says that the
  property is absent. \<open>form_submissions c = None\<close> says that the record has no
  \<^verbatim>\<open>form-submissions\<close> array.
\<close>

record contact_detail =
  vid :: int
  properties :: "string \<rightharpoonup> jsval"
  form_submissions :: "form_submission list option"

text \<open>The detailed record with the \<^verbatim>\<open>addedAt\<close> of its summary joined in.\<close>

record contact = contact_detail +
  addedAt :: int

text \<open>
  What \<^verbatim>\<open>new Date(t)\<close> answers to the five getters the code calls, in the local time
  zone of the platform. The platform is a parameter of the model.
\<close>

record date_parts =
  getDate :: int
  getMonth :: int
  getFullYear :: int
  getHours :: int
  getMinutes :: int

text \<open>
  The module \<^verbatim>\<open>../helpers\<close> is not part of the sources; its two functions are
  parameters of the model.
\<close>

record helpers =
  getURLParams :: "jsval \<Rightarrow> (string \<rightharpoonup> string)"
  getHostName :: "jsval \<Rightarrow> string"

subsection \<open>\<^verbatim>\<open>insertAddedDateOnDetailedContacts\<close>\<close>

text \<open>
  \<^verbatim>\<open>contacts.find(c => c.vid === dc.vid)\<close> answers \<^verbatim>\<open>undefined\<close> when no summary has the
  vid; reading \<^verbatim>\<open>contact.addedAt\<close> then throws.
\<close>

fun insertAddedDateOnDetailedContacts ::
  "contact_summary list \<Rightarrow> contact_detail list \<Rightarrow> error + contact list" where
  "insertAddedDateOnDetailedContacts contacts [] = Inr []"
| "insertAddedDateOnDetailedContacts contacts (dc # detailedContacts) =
     (case find (\<lambda>c. summary_vid c = vid dc) contacts of
        None \<Rightarrow> Inl TypeError
      | Some c \<Rightarrow>
          (case insertAddedDateOnDetailedContacts contacts detailedContacts of
             Inl e \<Rightarrow> Inl e
           | Inr rest \<Rightarrow>
               Inr (\<lparr>vid = vid dc, properties = properties dc,
                     form_submissions = form_submissions dc,
                     addedAt = summary_addedAt c\<rparr> # rest)))"

subsection \<open>\<^verbatim>\<open>formattedDate\<close>\<close>

definition withZeros :: "int \<Rightarrow> string" where
  "withZeros num = padStart 2 (CHR ''0'') (js_String num)"

definition formattedDate :: "(int \<Rightarrow> date_parts) \<Rightarrow> int \<Rightarrow> string" where
  "formattedDate new_Date date =
     (let d = new_Date date
      in withZeros (getDate d) @ ''/'' @ withZeros (getMonth d + 1) @ ''/''
         @ withZeros (getFullYear d) @ '' - '' @ withZeros (getHours d) @ '':''
         @ withZeros (getMinutes d))"

subsection \<open>\<^verbatim>\<open>formatContact\<close>\<close>

text \<open>
  \<^verbatim>\<open>contact["form-submissions"][0] && contact["form-submissions"][0]["page-url"]\<close>
  on an array that exists.
\<close>

definition form_submission_page :: "form_submission list \<Rightarrow> jsval" where
  "form_submission_page subs = (case subs of [] \<Rightarrow> JUndefined | s # _ \<Rightarrow> page_url s)"

definition landingPageUrls :: "(string \<rightharpoonup> jsval) \<Rightarrow> form_submission list \<Rightarrow> jsval list" where
  "landingPageUrls props subs =
     [and_value (props ''hs_analytics_first_url''),
      and_value (props ''hs_analytics_last_url''),
      and_value (props ''hs_analytics_first_referrer''),
      and_value (props ''hs_analytics_last_referrer''),
      form_submission_page subs]"

text \<open>
  The \<^verbatim>\<open>forEach\<close> that merges the query parameters of all the URLs:
  \<^verbatim>\<open>queryParams = {...queryParams, ...helpers.getURLParams(lp)}\<close>.
\<close>

definition queryParams :: "helpers \<Rightarrow> jsval list \<Rightarrow> (string \<rightharpoonup> string)" where
  "queryParams H urls = fold (\<lambda>lp qp. qp ++ getURLParams H lp) urls Map.empty"

text \<open>
  The own keys of the table of institution names, an object literal; \<open>get_prop\<close> adds the
  members that the literal inherits.
\<close>

definition INSTITUTIONS :: "string \<rightharpoonup> string" where
  "INSTITUTIONS =
     map_of
       [(''br.digitalmarketinginstitute.com'', ''DMI''),
        (''dmi.espm.br'', ''ESPM''),
        (''gestaopublica.fecap.br'', ''Fecap''),
        (''posead.institutosingularidades.edu.br'', ''Singularidades''),
        (''cursopos.com'', ''FAT'')]"

definition hs_url :: "int \<Rightarrow> string" where
  "hs_url v = ''https://app.hubspot.com/contacts/6331207/contact/'' @ js_String v"

definition formatContact ::
  "helpers \<Rightarrow> (int \<Rightarrow> date_parts) \<Rightarrow> contact \<Rightarrow> error + jsobj" where
  "formatContact H new_Date contact =
     (case properties contact ''hs_analytics_source'' of
        None \<Rightarrow> Inl TypeError
      | Some analytics_source \<Rightarrow>
          let formattedContact =
                [(''id'', JNum (vid contact)),
                 (''analytics_source'', analytics_source),
                 (''hs_url'', JStr (hs_url (vid contact))),
                 (''addedAt'', JStr (formattedDate new_Date (addedAt contact)))];
              hs_analytics_first_url = properties contact ''hs_analytics_first_url'';
              hs_analytics_last_url = properties contact ''hs_analytics_last_url'';
              hs_analytics_first_referrer = properties contact ''hs_analytics_first_referrer'';
              hs_analytics_last_referrer = properties contact ''hs_analytics_last_referrer'';
              first_conversion_event_name = properties contact ''first_conversion_event_name''
          in (case form_submissions contact of
                None \<Rightarrow> Inl TypeError
              | Some subs \<Rightarrow>
                  if hs_analytics_first_url \<noteq> None \<or> hs_analytics_last_url \<noteq> None
                     \<or> hs_analytics_first_referrer \<noteq> None \<or> hs_analytics_last_referrer \<noteq> None
                     \<or> truthy (form_submission_page subs)
                  then
                    let qp = queryParams H (landingPageUrls (properties contact) subs);
                        institution =
                          (case hs_analytics_last_url of
                             None \<Rightarrow> JUndefined
                           | Some u \<Rightarrow> get_prop INSTITUTIONS (getHostName H u));
                        source = get_prop qp ''utm_source'';
                        formattedContact =
                          spread formattedContact
                            [(''institution'', institution),
                             (''utm_source'', source),
                             (''utm_campaign'', get_prop qp ''utm_campaign''),
                             (''hsa_grp'', js_or (get_prop qp ''hsa_grp'') (get_prop qp ''ad_group'')),
                             (''utm_content'', get_prop qp ''utm_content'')];
                        source =
                          (if source = JStr ''facebook''
                              \<and> hs_analytics_first_referrer = Some (JStr ''http://instagram.com/'')
                           then JStr ''instagram'' else source)
                    in if source = JStr ''linkedin''
                       then (case first_conversion_event_name of
                               None \<Rightarrow> Inr formattedContact
                             | Some v \<Rightarrow> Inr (AList.update ''ad'' v formattedContact))
                       else Inr formattedContact
                  else Inr formattedContact))"

subsection \<open>Array operations\<close>

text \<open>\<^verbatim>\<open>xs.findIndex(p)\<close>: the index of the first element that satisfies \<open>p\<close>, or \<open>-1\<close>.\<close>

fun findIndex :: "('a \<Rightarrow> bool) \<Rightarrow> 'a list \<Rightarrow> int" where
  "findIndex p [] = - 1"
| "findIndex p (x # xs) =
     (if p x then 0 else (let i = findIndex p xs in if i = - 1 then - 1 else i + 1))"

text \<open>\<^verbatim>\<open>xs.slice(0, end)\<close>: a negative \<open>end\<close> counts from the end of the array.\<close>

definition slice0 :: "'a list \<Rightarrow> int \<Rightarrow> 'a list" where
  "slice0 xs e = (if e < 0 then take (nat (int (length xs) + e)) xs else take (nat e) xs)"

text \<open>\<^verbatim>\<open>xs.map(f)\<close> for an \<open>f\<close> that may throw: the first exception ends the map.\<close>

fun map_throw :: "('a \<Rightarrow> error + 'b) \<Rightarrow> 'a list \<Rightarrow> error + 'b list" where
  "map_throw f [] = Inr []"
| "map_throw f (x # xs) =
     (case f x of
        Inl e \<Rightarrow> Inl e
      | Inr y \<Rightarrow> (case map_throw f xs of Inl e \<Rightarrow> Inl e | Inr ys \<Rightarrow> Inr (y # ys)))"

text \<open>
  \<^verbatim>\<open>a <= timeStop\<close> for a number \<open>a\<close>, where \<open>timeStop\<close> is a number or \<^verbatim>\<open>null\<close>; the
  comparison turns \<^verbatim>\<open>null\<close> into \<open>0\<close>.
\<close>

definition le_or_null :: "int \<Rightarrow> int option \<Rightarrow> bool" where
  "le_or_null a t = (case t of None \<Rightarrow> a \<le> 0 | Some n \<Rightarrow> a \<le> n)"

subsection \<open>The HubSpot endpoints\<close>

record stage_detail =
  stageId :: string

record pipeline_detail =
  pipelineId :: string
  stages :: "stage_detail list"

text \<open>
  A deal as the deal endpoint returns it: \<open>pipeline_value\<close> is
  \<^verbatim>\<open>deal.properties.pipeline.value\<close> and \<open>dealstage_value\<close> is
  \<^verbatim>\<open>deal.properties.dealstage.value\<close>.
\<close>

record raw_deal =
  deal_id :: int
  pipeline_value :: string
  dealstage_value :: string

text \<open>
  The deal after the join. \<open>stage d = None\<close> says that \<^verbatim>\<open>deal.stage\<close> is \<^verbatim>\<open>undefined\<close>.
\<close>

record deal = raw_deal +
  pipeline :: pipeline_detail
  stage :: "stage_detail option"

record contacts_page =
  page_contacts :: "contact_summary list"
  has_more :: bool
  vid_offset :: int
  time_offset :: int

text \<open>
  The answers of the REST endpoints, \<open>None\<close> for a request that fails. The listing takes
  the two optional pagination fields of the query; the batch endpoint answers the
  detailed records in the order in which \<^verbatim>\<open>Object.keys\<close> enumerates them.
\<close>

record hubspot_api =
  contacts_recent :: "int option \<Rightarrow> int option \<Rightarrow> contacts_page option"
  contact_batch :: "int list \<Rightarrow> contact_detail list option"
  deal_associations :: "int \<Rightarrow> int list option"
  deal_by_id :: "int \<Rightarrow> raw_deal option"
  deal_pipelines :: "pipeline_detail list option"

text \<open>
  Each of the following functions catches the failure of its request, logs it and
  returns \<^verbatim>\<open>undefined\<close>, here \<open>None\<close>.
\<close>

definition getDealIdsFromContact :: "hubspot_api \<Rightarrow> int \<Rightarrow> int list option" where
  "getDealIdsFromContact api contactId = deal_associations api contactId"

definition getDeal :: "hubspot_api \<Rightarrow> int \<Rightarrow> raw_deal option" where
  "getDeal api dealId = deal_by_id api dealId"

definition getAllPipelines :: "hubspot_api \<Rightarrow> pipeline_detail list option" where
  "getAllPipelines api = deal_pipelines api"

text \<open>A pagination field is put into the query only when its offset is truthy.\<close>

definition pagination :: "int option \<Rightarrow> int option" where
  "pagination offset = (case offset of None \<Rightarrow> None | Some n \<Rightarrow> if n \<noteq> 0 then Some n else None)"

definition getContacts :: "hubspot_api \<Rightarrow> int option \<Rightarrow> int option \<Rightarrow> contacts_page option" where
  "getContacts api vidOffset timeOffset =
     contacts_recent api (pagination vidOffset) (pagination timeOffset)"

definition getContactsDetailedInfo ::
  "hubspot_api \<Rightarrow> contact_summary list \<Rightarrow> contact list option" where
  "getContactsDetailedInfo api contacts =
     (case contact_batch api (map summary_vid contacts) of
        None \<Rightarrow> None
      | Some detailedContacts \<Rightarrow>
          (case insertAddedDateOnDetailedContacts contacts detailedContacts of
             Inl e \<Rightarrow> None
           | Inr detailedContacts \<Rightarrow> Some detailedContacts))"

subsection \<open>\<^verbatim>\<open>getDealsFromContact\<close>\<close>

text \<open>
  The body of the \<^verbatim>\<open>for\<close> loop. A deal that could not be fetched is \<^verbatim>\<open>undefined\<close>, and a
  pipeline that \<^verbatim>\<open>find\<close> does not find is \<^verbatim>\<open>undefined\<close>: reading a member of either throws.
  A stage that \<^verbatim>\<open>find\<close> does not find is stored as it is.
\<close>

fun deals_loop ::
  "hubspot_api \<Rightarrow> pipeline_detail list \<Rightarrow> int list \<Rightarrow> deal list \<Rightarrow> error + deal list" where
  "deals_loop api pipelines [] deals = Inr deals"
| "deals_loop api pipelines (dealId # dealIds) deals =
     (case getDeal api dealId of
        None \<Rightarrow> Inl TypeError
      | Some d \<Rightarrow>
          (case find (\<lambda>p. pipelineId p = pipeline_value d) pipelines of
             None \<Rightarrow> Inl TypeError
           | Some p \<Rightarrow>
               deals_loop api pipelines dealIds
                 (deals @ [\<lparr>deal_id = deal_id d, pipeline_value = pipeline_value d,
                            dealstage_value = dealstage_value d, pipeline = p,
                            stage = find (\<lambda>s. stageId s = dealstage_value d) (stages p)\<rparr>])))"

text \<open>
  The \<^verbatim>\<open>try\<close> block, and the \<^verbatim>\<open>catch\<close> that logs the exception and lets the function
  return \<^verbatim>\<open>undefined\<close>.
\<close>

definition getDealsFromContact_try :: "hubspot_api \<Rightarrow> int \<Rightarrow> error + deal list" where
  "getDealsFromContact_try api contactId =
     (case getDealIdsFromContact api contactId of
        None \<Rightarrow> Inl TypeError
      | Some dealIds \<Rightarrow>
          (case getAllPipelines api of
             None \<Rightarrow> Inl TypeError
           | Some pipelines \<Rightarrow> deals_loop api pipelines dealIds []))"

definition getDealsFromContact :: "hubspot_api \<Rightarrow> int \<Rightarrow> deal list option" where
  "getDealsFromContact api contactId =
     (case getDealsFromContact_try api contactId of Inl err \<Rightarrow> None | Inr deals \<Rightarrow> Some deals)"

subsection \<open>\<^verbatim>\<open>loopContacts\<close>\<close>

text \<open>
  The sheet is the list of the batches handed to \<^verbatim>\<open>formatAndAppendToSheet\<close>, oldest
  first; the sheet id and the range label are passed on unchanged and left out.
\<close>

type_synonym sheet = "jsobj list list"

definition formatAndAppendToSheet :: "jsobj list \<Rightarrow> sheet \<Rightarrow> sheet" where
  "formatAndAppendToSheet data sheet = sheet @ [data]"

text \<open>
  The function returns its accumulator, or \<^verbatim>\<open>undefined\<close> (\<open>None\<close>) when an exception was
  caught and logged, together with the sheet as the calls have left it. A run that never
  ends is the value \<open>None\<close> of the outer \<open>option\<close>.
\<close>

partial_function (option) loopContacts ::
  "hubspot_api \<Rightarrow> helpers \<Rightarrow> (int \<Rightarrow> date_parts) \<Rightarrow> int option \<Rightarrow> int option
     \<Rightarrow> int option \<Rightarrow> int option \<Rightarrow> sheet \<Rightarrow> contact list
     \<Rightarrow> (contact list option \<times> sheet) option" where
  "loopContacts api H new_Date vidOffset timeOffset vidStop timeStop sheet contacts =
     (case getContacts api vidOffset timeOffset of
        None \<Rightarrow> Some (None, sheet)
      | Some contactsData \<Rightarrow>
          (case getContactsDetailedInfo api (page_contacts contactsData) of
             None \<Rightarrow> Some (None, sheet)
           | Some contactsDetailedInfo \<Rightarrow>
               let timeStopIndex =
                     findIndex (\<lambda>c. le_or_null (addedAt c) timeStop) contactsDetailedInfo;
                   newContacts =
                     (if timeStopIndex \<noteq> - 1 then slice0 contactsDetailedInfo timeStopIndex
                      else contactsDetailedInfo);
                   vidStopIndex = findIndex (\<lambda>c. Some (vid c) = vidStop) contactsDetailedInfo;
                   newContacts =
                     (if vidStopIndex \<noteq> - 1 then slice0 contactsDetailedInfo vidStopIndex
                      else contactsDetailedInfo)
               in (case map_throw (formatContact H new_Date) newContacts of
                     Inl err \<Rightarrow> Some (None, sheet)
                   | Inr formattedContacts \<Rightarrow>
                       let sheet = formatAndAppendToSheet formattedContacts sheet;
                           contacts = contacts @ newContacts
                       in if has_more contactsData \<and> vidStopIndex = - 1 \<and> timeStopIndex = - 1
                          then loopContacts api H new_Date (Some (vid_offset contactsData))
                                 (Some (time_offset contactsData)) vidStop timeStop sheet contacts
                          else Some (Some contacts, sheet))))"

section \<open>The vocabulary of the claims\<close>

subsection \<open>Attribution\<close>

text \<open>
  At least one of the five candidate URLs is present: the condition under which
  \<^verbatim>\<open>formatContact\<close> populates the attribution fields.
\<close>

definition candidate_present :: "contact \<Rightarrow> form_submission list \<Rightarrow> bool" where
  "candidate_present contact subs \<longleftrightarrow>
     properties contact ''hs_analytics_first_url'' \<noteq> None
     \<or> properties contact ''hs_analytics_last_url'' \<noteq> None
     \<or> properties contact ''hs_analytics_first_referrer'' \<noteq> None
     \<or> properties contact ''hs_analytics_last_referrer'' \<noteq> None
     \<or> truthy (form_submission_page subs)"

text \<open>
  The object that the populated branch builds before the LinkedIn exception, key by key.
\<close>

definition populated ::
  "helpers \<Rightarrow> (int \<Rightarrow> date_parts) \<Rightarrow> contact \<Rightarrow> jsval \<Rightarrow> form_submission list \<Rightarrow> jsobj" where
  "populated H new_Date contact a subs =
     (let qp = queryParams H (landingPageUrls (properties contact) subs)
      in [(''id'', JNum (vid contact)),
          (''analytics_source'', a),
          (''hs_url'', JStr (hs_url (vid contact))),
          (''addedAt'', JStr (formattedDate new_Date (addedAt contact))),
          (''institution'',
             (case properties contact ''hs_analytics_last_url'' of
                None \<Rightarrow> JUndefined
              | Some u \<Rightarrow> get_prop INSTITUTIONS (getHostName H u))),
          (''utm_source'', get_prop qp ''utm_source''),
          (''utm_campaign'', get_prop qp ''utm_campaign''),
          (''hsa_grp'', js_or (get_prop qp ''hsa_grp'') (get_prop qp ''ad_group'')),
          (''utm_content'', get_prop qp ''utm_content'')])"

text \<open>
  The specification's merge: a candidate that is \<^verbatim>\<open>null\<close> or \<^verbatim>\<open>undefined\<close> is skipped, the
  parameters of the others are merged from left to right, a later candidate overwriting
  an earlier one (\<open>m ++ n\<close> prefers \<open>n\<close>).
\<close>

definition spec_present :: "jsval \<Rightarrow> bool" where
  "spec_present u \<longleftrightarrow> u \<noteq> JUndefined \<and> u \<noteq> JNull"

text \<open>
  The specification's candidate list, in its fixed order: the values of the first-touch
  URL, the last-touch URL, the first referrer and the last referrer, then the page URL of
  the first form submission; a candidate that the contact does not have is \<^verbatim>\<open>undefined\<close>.
\<close>

definition spec_candidates :: "contact \<Rightarrow> form_submission list \<Rightarrow> jsval list" where
  "spec_candidates contact subs =
     [(case properties contact ''hs_analytics_first_url'' of
         None \<Rightarrow> JUndefined | Some v \<Rightarrow> v),
      (case properties contact ''hs_analytics_last_url'' of
         None \<Rightarrow> JUndefined | Some v \<Rightarrow> v),
      (case properties contact ''hs_analytics_first_referrer'' of
         None \<Rightarrow> JUndefined | Some v \<Rightarrow> v),
      (case properties contact ''hs_analytics_last_referrer'' of
         None \<Rightarrow> JUndefined | Some v \<Rightarrow> v),
      (case subs of [] \<Rightarrow> JUndefined | s # rest \<Rightarrow> page_url s)]"

definition spec_merged_params :: "helpers \<Rightarrow> jsval list \<Rightarrow> (string \<rightharpoonup> string)" where
  "spec_merged_params H candidates =
     foldl (++) Map.empty (map (getURLParams H) (filter spec_present candidates))"

text \<open>
  A merged parameter as the specification reads it, and \<open>hsa_grp\<close> with its fallback: the
  merged \<open>hsa_grp\<close> when there is one and it is not empty, the merged \<open>ad_group\<close> otherwise.
\<close>

definition spec_param :: "(string \<rightharpoonup> string) \<Rightarrow> string \<Rightarrow> jsval" where
  "spec_param m k = (case m k of None \<Rightarrow> JUndefined | Some s \<Rightarrow> JStr s)"

definition spec_hsa_grp :: "(string \<rightharpoonup> string) \<Rightarrow> jsval" where
  "spec_hsa_grp m =
     (case m ''hsa_grp'' of
        None \<Rightarrow> spec_param m ''ad_group''
      | Some s \<Rightarrow> if s = [] then spec_param m ''ad_group'' else JStr s)"

text \<open>The specification's institution table, as an exact match on the host name.\<close>

definition spec_institution :: "string \<Rightarrow> jsval" where
  "spec_institution h =
     (if h = ''br.digitalmarketinginstitute.com'' then JStr ''DMI''
      else if h = ''dmi.espm.br'' then JStr ''ESPM''
      else if h = ''gestaopublica.fecap.br'' then JStr ''Fecap''
      else if h = ''posead.institutosingularidades.edu.br'' then JStr ''Singularidades''
      else if h = ''cursopos.com'' then JStr ''FAT''
      else JUndefined)"

subsection \<open>The date format\<close>





subsection \<open>Deals\<close>

text \<open>
  The deal \<open>e\<close> is the deal of id \<open>dealId\<close> joined with the catalog: its pipeline is the
  first pipeline of the catalog with the deal's pipeline id, its stage the first stage of
  that pipeline with the deal's stage id, or \<^verbatim>\<open>undefined\<close> when the pipeline has none.
\<close>

definition joined_deal :: "hubspot_api \<Rightarrow> pipeline_detail list \<Rightarrow> int \<Rightarrow> deal \<Rightarrow> bool" where
  "joined_deal api pipelines dealId e \<longleftrightarrow>
     (\<exists>d p. getDeal api dealId = Some d
        \<and> find (\<lambda>p. pipelineId p = pipeline_value d) pipelines = Some p
        \<and> e = \<lparr>deal_id = deal_id d, pipeline_value = pipeline_value d,
                dealstage_value = dealstage_value d, pipeline = p,
                stage = find (\<lambda>s. stageId s = dealstage_value d) (stages p)\<rparr>)"

definition pipeline_missing :: "hubspot_api \<Rightarrow> pipeline_detail list \<Rightarrow> int \<Rightarrow> bool" where
  "pipeline_missing api pipelines dealId \<longleftrightarrow>
     (\<exists>d. getDeal api dealId = Some d \<and> pipeline_value d \<notin> pipelineId ` set pipelines)"

subsection \<open>Pagination\<close>

text \<open>
  The truncation of section 4.3 of the specification: \<open>ti\<close> is the index of the first
  record with \<open>addedAt \<le> timeStop\<close> when \<open>timeStop\<close> is set, \<open>vi\<close> the index of the first
  record with \<open>vid = vidStop\<close> when \<open>vidStop\<close> is set; the effective index is \<open>vi\<close> if it was
  found, else \<open>ti\<close> if it was found; the retained batch is the prefix before the effective
  index, or the whole page when no index was found.
\<close>

definition spec_first_index :: "('a \<Rightarrow> bool) \<Rightarrow> 'a list \<Rightarrow> nat option" where
  "spec_first_index P xs =
     (if \<exists>x\<in>set xs. P x then Some (length (takeWhile (\<lambda>x. \<not> P x) xs)) else None)"

definition spec_effective_index :: "int option \<Rightarrow> int option \<Rightarrow> contact list \<Rightarrow> nat option" where
  "spec_effective_index vidStop timeStop page =
     (let ti = (case timeStop of
                  None \<Rightarrow> None
                | Some t \<Rightarrow> spec_first_index (\<lambda>c. addedAt c \<le> t) page);
          vi = (case vidStop of
                  None \<Rightarrow> None
                | Some v \<Rightarrow> spec_first_index (\<lambda>c. vid c = v) page)
      in case vi of Some i \<Rightarrow> Some i | None \<Rightarrow> ti)"

definition spec_retained :: "int option \<Rightarrow> int option \<Rightarrow> contact list \<Rightarrow> contact list" where
  "spec_retained vidStop timeStop page =
     (case spec_effective_index vidStop timeStop page of
        None \<Rightarrow> page
      | Some i \<Rightarrow> take i page)"

section \<open>Example data\<close>

text \<open>
  A helper module that knows eight URLs, a platform that reads every timestamp as
  2 November 2020, 09:05, and an account with three contacts on two pages and three deals.
\<close>

fun ex_getURLParams :: "jsval \<Rightarrow> (string \<rightharpoonup> string)" where
  "ex_getURLParams (JStr u) =
     (if u = ''https://cursopos.com/?utm_source=a&ad_group=g''
      then [''utm_source'' \<mapsto> ''a'', ''ad_group'' \<mapsto> ''g'']
      else if u = ''https://dmi.espm.br/curso?utm_source=b&utm_campaign=x''
      then [''utm_source'' \<mapsto> ''b'', ''utm_campaign'' \<mapsto> ''x'']
      else if u = ''https://dmi.espm.br/?utm_source=facebook''
      then [''utm_source'' \<mapsto> ''facebook'']
      else if u = ''https://gestaopublica.fecap.br/?utm_source=linkedin''
      then [''utm_source'' \<mapsto> ''linkedin'']
      else if u = ''https://www.google.com/?utm_content=c1&utm_campaign=y''
      then [''utm_content'' \<mapsto> ''c1'', ''utm_campaign'' \<mapsto> ''y'']
      else if u = ''https://www.bing.com/?utm_content=c2''
      then [''utm_content'' \<mapsto> ''c2'']
      else if u = ''https://dmi.espm.br/form?utm_source=e&hsa_grp=h''
      then [''utm_source'' \<mapsto> ''e'', ''hsa_grp'' \<mapsto> ''h'']
      else Map.empty)"
| "ex_getURLParams v = Map.empty"

fun ex_getHostName :: "jsval \<Rightarrow> string" where
  "ex_getHostName (JStr u) =
     (if u = ''https://cursopos.com/?utm_source=a&ad_group=g'' then ''cursopos.com''
      else if u = ''https://dmi.espm.br/curso?utm_source=b&utm_campaign=x'' then ''dmi.espm.br''
      else if u = ''https://dmi.espm.br/?utm_source=facebook'' then ''dmi.espm.br''
      else if u = ''https://gestaopublica.fecap.br/?utm_source=linkedin''
      then ''gestaopublica.fecap.br''
      else if u = ''https://www.google.com/?utm_content=c1&utm_campaign=y''
      then ''www.google.com''
      else if u = ''https://www.bing.com/?utm_content=c2'' then ''www.bing.com''
      else if u = ''https://dmi.espm.br/form?utm_source=e&hsa_grp=h'' then ''dmi.espm.br''
      else if u = ''http://constructor/'' then ''constructor''
      else [])"
| "ex_getHostName v = []"

definition ex_helpers :: helpers where
  "ex_helpers = \<lparr>getURLParams = ex_getURLParams, getHostName = ex_getHostName\<rparr>"

definition ex_Date :: "int \<Rightarrow> date_parts" where
  "ex_Date t = \<lparr>getDate = 2, getMonth = 10, getFullYear = 2020, getHours = 9, getMinutes = 5\<rparr>"

definition ex_direct :: "string \<rightharpoonup> jsval" where
  "ex_direct = [''hs_analytics_source'' \<mapsto> JStr ''DIRECT_TRAFFIC'']"

definition ex_contact :: "int \<Rightarrow> int \<Rightarrow> contact" where
  "ex_contact v t = \<lparr>vid = v, properties = ex_direct, form_submissions = Some [], addedAt = t\<rparr>"

definition ex_row :: "int \<Rightarrow> jsobj" where
  "ex_row v =
     [(''id'', JNum v), (''analytics_source'', JStr ''DIRECT_TRAFFIC''),
      (''hs_url'', JStr (hs_url v)), (''addedAt'', JStr ''02/11/2020 - 09:05'')]"

definition ex_no_source :: contact where
  "ex_no_source = \<lparr>vid = 52, properties = Map.empty, form_submissions = Some [], addedAt = 300\<rparr>"

definition ex_two_urls :: contact where
  "ex_two_urls =
     \<lparr>vid = 53,
      properties =
        [''hs_analytics_source'' \<mapsto> JStr ''PAID_SEARCH'',
         ''hs_analytics_first_url'' \<mapsto> JStr ''https://cursopos.com/?utm_source=a&ad_group=g'',
         ''hs_analytics_last_url''
           \<mapsto> JStr ''https://dmi.espm.br/curso?utm_source=b&utm_campaign=x''],
      form_submissions = Some [], addedAt = 300\<rparr>"

definition ex_five_urls :: contact where
  "ex_five_urls =
     \<lparr>vid = 56,
      properties =
        [''hs_analytics_source'' \<mapsto> JStr ''PAID_SEARCH'',
         ''hs_analytics_first_url'' \<mapsto> JStr ''https://cursopos.com/?utm_source=a&ad_group=g'',
         ''hs_analytics_last_url''
           \<mapsto> JStr ''https://dmi.espm.br/curso?utm_source=b&utm_campaign=x'',
         ''hs_analytics_first_referrer''
           \<mapsto> JStr ''https://www.google.com/?utm_content=c1&utm_campaign=y'',
         ''hs_analytics_last_referrer'' \<mapsto> JStr ''https://www.bing.com/?utm_content=c2''],
      form_submissions =
        Some [\<lparr>page_url = JStr ''https://dmi.espm.br/form?utm_source=e&hsa_grp=h''\<rparr>],
      addedAt = 300\<rparr>"

definition ex_null_url :: contact where
  "ex_null_url =
     \<lparr>vid = 57,
      properties =
        [''hs_analytics_source'' \<mapsto> JStr ''DIRECT_TRAFFIC'',
         ''hs_analytics_first_url'' \<mapsto> JNull],
      form_submissions = Some [], addedAt = 300\<rparr>"

definition ex_constructor_host :: contact where
  "ex_constructor_host =
     \<lparr>vid = 58,
      properties =
        [''hs_analytics_source'' \<mapsto> JStr ''REFERRALS'',
         ''hs_analytics_last_url'' \<mapsto> JStr ''http://constructor/''],
      form_submissions = Some [], addedAt = 300\<rparr>"

definition ex_facebook :: contact where
  "ex_facebook =
     \<lparr>vid = 54,
      properties =
        [''hs_analytics_source'' \<mapsto> JStr ''SOCIAL_MEDIA'',
         ''hs_analytics_first_url'' \<mapsto> JStr ''https://dmi.espm.br/?utm_source=facebook'',
         ''hs_analytics_first_referrer'' \<mapsto> JStr ''http://instagram.com/'',
         ''first_conversion_event_name'' \<mapsto> JStr ''Form A''],
      form_submissions = Some [], addedAt = 300\<rparr>"

definition ex_linkedin :: contact where
  "ex_linkedin =
     \<lparr>vid = 55,
      properties =
        [''hs_analytics_source'' \<mapsto> JStr ''PAID_SOCIAL'',
         ''hs_analytics_last_url''
           \<mapsto> JStr ''https://gestaopublica.fecap.br/?utm_source=linkedin'',
         ''first_conversion_event_name'' \<mapsto> JStr ''Lead Gen Form''],
      form_submissions = Some [], addedAt = 300\<rparr>"

definition ex_contacts_recent :: "int option \<Rightarrow> int option \<Rightarrow> contacts_page option" where
  "ex_contacts_recent vidOffset timeOffset =
     (case vidOffset of
        None \<Rightarrow>
          Some \<lparr>page_contacts =
                  [\<lparr>summary_vid = 12, summary_addedAt = 300\<rparr>,
                   \<lparr>summary_vid = 15, summary_addedAt = 200\<rparr>],
                has_more = True, vid_offset = 15, time_offset = 200\<rparr>
      | Some v \<Rightarrow>
          if v = 15
          then Some \<lparr>page_contacts = [\<lparr>summary_vid = 7, summary_addedAt = 100\<rparr>],
                      has_more = False, vid_offset = 7, time_offset = 100\<rparr>
          else None)"

definition ex_contact_batch :: "int list \<Rightarrow> contact_detail list option" where
  "ex_contact_batch vids =
     Some (map (\<lambda>v. \<lparr>vid = v, properties = ex_direct, form_submissions = Some []\<rparr>) (sort vids))"

definition ex_deal_associations :: "int \<Rightarrow> int list option" where
  "ex_deal_associations contactId =
     (if contactId = 7 then Some [900, 901] else if contactId = 12 then Some [902] else Some [])"

definition ex_deal_by_id :: "int \<Rightarrow> raw_deal option" where
  "ex_deal_by_id dealId =
     (if dealId = 900
      then Some \<lparr>deal_id = 900, pipeline_value = ''default'', dealstage_value = ''closedwon''\<rparr>
      else if dealId = 901
      then Some \<lparr>deal_id = 901, pipeline_value = ''default'',
                  dealstage_value = ''appointmentscheduled''\<rparr>
      else if dealId = 902
      then Some \<lparr>deal_id = 902, pipeline_value = ''enterprise'',
                  dealstage_value = ''appointmentscheduled''\<rparr>
      else None)"

definition ex_pipeline :: pipeline_detail where
  "ex_pipeline =
     \<lparr>pipelineId = ''default'',
      stages = [\<lparr>stageId = ''appointmentscheduled''\<rparr>, \<lparr>stageId = ''qualifiedtobuy''\<rparr>]\<rparr>"

definition ex_api :: hubspot_api where
  "ex_api =
     \<lparr>contacts_recent = ex_contacts_recent, contact_batch = ex_contact_batch,
      deal_associations = ex_deal_associations, deal_by_id = ex_deal_by_id,
      deal_pipelines = Some [ex_pipeline]\<rparr>"

section \<open>Properties of the functions\<close>

subsection \<open>\<^verbatim>\<open>formatContact\<close>\<close>

lemma formatContact_populated:
  assumes "properties contact ''hs_analytics_source'' = Some a"
    and "form_submissions contact = Some subs"
    and "candidate_present contact subs"
  shows "formatContact H new_Date contact =
           Inr (if get_prop (queryParams H (landingPageUrls (properties contact) subs))
                     ''utm_source'' = JStr ''linkedin''
                then (case properties contact ''first_conversion_event_name'' of
                        None \<Rightarrow> populated H new_Date contact a subs
                      | Some v \<Rightarrow> populated H new_Date contact a subs @ [(''ad'', v)])
                else populated H new_Date contact a subs)"
  using assms
  by (simp add: formatContact_def populated_def candidate_present_def spread_def Let_def
      split: option.splits)

lemma formatContact_not_populated:
  assumes "properties contact ''hs_analytics_source'' = Some a"
    and "form_submissions contact = Some subs"
    and "\<not> candidate_present contact subs"
  shows "formatContact H new_Date contact =
           Inr [(''id'', JNum (vid contact)),
                (''analytics_source'', a),
                (''hs_url'', JStr (hs_url (vid contact))),
                (''addedAt'', JStr (formattedDate new_Date (addedAt contact)))]"
  using assms
  by (simp add: formatContact_def candidate_present_def Let_def)

lemma formatContact_throws:
  "formatContact H new_Date contact = Inl TypeError \<longleftrightarrow>
     properties contact ''hs_analytics_source'' = None \<or> form_submissions contact = None"
  by (simp add: formatContact_def Let_def split: option.splits)

lemma populated_keys:
  "map fst (populated H new_Date contact a subs) =
     [''id'', ''analytics_source'', ''hs_url'', ''addedAt'', ''institution'', ''utm_source'',
      ''utm_campaign'', ''hsa_grp'', ''utm_content'']"
  by (simp add: populated_def Let_def)

lemma populated_lookup:
  "map_of (populated H new_Date contact a subs) ''analytics_source'' = Some a"
  "map_of (populated H new_Date contact a subs) ''institution'' =
     Some (case properties contact ''hs_analytics_last_url'' of
             None \<Rightarrow> JUndefined
           | Some u \<Rightarrow> get_prop INSTITUTIONS (getHostName H u))"
  "map_of (populated H new_Date contact a subs) ''utm_source'' =
     Some (get_prop (queryParams H (landingPageUrls (properties contact) subs)) ''utm_source'')"
  "map_of (populated H new_Date contact a subs) ''utm_campaign'' =
     Some (get_prop (queryParams H (landingPageUrls (properties contact) subs)) ''utm_campaign'')"
  "map_of (populated H new_Date contact a subs) ''hsa_grp'' =
     Some (js_or (get_prop (queryParams H (landingPageUrls (properties contact) subs)) ''hsa_grp'')
                 (get_prop (queryParams H (landingPageUrls (properties contact) subs)) ''ad_group''))"
  "map_of (populated H new_Date contact a subs) ''utm_content'' =
     Some (get_prop (queryParams H (landingPageUrls (properties contact) subs)) ''utm_content'')"
  "map_of (populated H new_Date contact a subs) ''addedAt'' =
     Some (JStr (formattedDate new_Date (addedAt contact)))"
  "map_of (populated H new_Date contact a subs) ''ad'' = None"
  by (simp_all add: populated_def Let_def)


lemma queryParams_fold:
  assumes "g JUndefined = Map.empty" and "g JNull = Map.empty"
  shows "fold (\<lambda>lp qp. qp ++ g lp) urls acc = foldl (++) acc (map g (filter spec_present urls))"
  using assms by (induction urls arbitrary: acc) (auto simp: spec_present_def)

lemma queryParams_spec:
  assumes "getURLParams H JUndefined = Map.empty" and "getURLParams H JNull = Map.empty"
  shows "queryParams H urls = spec_merged_params H urls"
  unfolding queryParams_def spec_merged_params_def using assms by (rule queryParams_fold)

lemma landingPageUrls_spec:
  "landingPageUrls (properties contact) subs = spec_candidates contact subs"
  by (simp add: landingPageUrls_def spec_candidates_def and_value_def form_submission_page_def)

lemma get_prop_spec:
  "get_prop m ''utm_source'' = spec_param m ''utm_source''"
  "get_prop m ''utm_campaign'' = spec_param m ''utm_campaign''"
  "get_prop m ''utm_content'' = spec_param m ''utm_content''"
  "js_or (get_prop m ''hsa_grp'') (get_prop m ''ad_group'') = spec_hsa_grp m"
  by (simp_all add: get_prop_def spec_param_def spec_hsa_grp_def js_or_def Object_prototype_def
      split: option.splits)

subsection \<open>\<^verbatim>\<open>formattedDate\<close>\<close>








subsection \<open>\<^verbatim>\<open>insertAddedDateOnDetailedContacts\<close>\<close>


subsection \<open>\<^verbatim>\<open>getDealsFromContact\<close>\<close>

lemma find_pipeline_None:
  "find (\<lambda>p. pipelineId p = v) pipelines = None \<longleftrightarrow> v \<notin> pipelineId ` set pipelines"
  by (auto simp: find_None_iff)

lemma deals_loop_missing:
  "\<exists>dealId\<in>set dealIds. pipeline_missing api pipelines dealId \<Longrightarrow>
     deals_loop api pipelines dealIds deals = Inl TypeError"
proof (induction dealIds arbitrary: deals)
  case Nil
  then show ?case by simp
next
  case (Cons dealId dealIds)
  show ?case
  proof (cases "getDeal api dealId")
    case None
    then show ?thesis by simp
  next
    case (Some d)
    show ?thesis
    proof (cases "find (\<lambda>p. pipelineId p = pipeline_value d) pipelines")
      case None
      with Some show ?thesis by simp
    next
      case found: (Some p)
      then have "pipeline_value d \<in> pipelineId ` set pipelines"
        using find_pipeline_None [of "pipeline_value d" pipelines] by auto
      with Some have "\<not> pipeline_missing api pipelines dealId"
        by (simp add: pipeline_missing_def)
      with Cons.prems have "\<exists>dealId\<in>set dealIds. pipeline_missing api pipelines dealId"
        by auto
      then show ?thesis
        using Cons.IH Some found by simp
    qed
  qed
qed

lemma deals_loop_joined:
  "\<forall>dealId\<in>set dealIds. getDeal api dealId \<noteq> None \<and> \<not> pipeline_missing api pipelines dealId \<Longrightarrow>
     \<exists>new. deals_loop api pipelines dealIds deals = Inr (deals @ new)
        \<and> list_all2 (joined_deal api pipelines) dealIds new"
proof (induction dealIds arbitrary: deals)
  case Nil
  then show ?case by simp
next
  case (Cons dealId dealIds)
  from Cons.prems obtain d where d: "getDeal api dealId = Some d" by auto
  with Cons.prems have "pipeline_value d \<in> pipelineId ` set pipelines"
    by (auto simp: pipeline_missing_def)
  then obtain p where p: "find (\<lambda>p. pipelineId p = pipeline_value d) pipelines = Some p"
    using find_pipeline_None [of "pipeline_value d" pipelines] by auto
  define e where "e = \<lparr>deal_id = deal_id d, pipeline_value = pipeline_value d,
                dealstage_value = dealstage_value d, pipeline = p,
                stage = find (\<lambda>s. stageId s = dealstage_value d) (stages p)\<rparr>"
  have j: "joined_deal api pipelines dealId e"
    unfolding joined_deal_def e_def using d p by blast
  from Cons.prems
  have "\<forall>dealId\<in>set dealIds. getDeal api dealId \<noteq> None \<and> \<not> pipeline_missing api pipelines dealId"
    by simp
  from Cons.IH [OF this, of "deals @ [e]"] obtain new where
    new: "deals_loop api pipelines dealIds (deals @ [e]) = Inr ((deals @ [e]) @ new)"
      "list_all2 (joined_deal api pipelines) dealIds new" by blast
  have "deals_loop api pipelines (dealId # dealIds) deals = Inr (deals @ (e # new))"
    using d p new(1) by (simp add: e_def)
  moreover have "list_all2 (joined_deal api pipelines) (dealId # dealIds) (e # new)"
    using j new(2) by simp
  ultimately show ?case by blast
qed

subsection \<open>The example account\<close>

lemma ex_page1:
  "getContacts ex_api None None =
     Some \<lparr>page_contacts =
               [\<lparr>summary_vid = 12, summary_addedAt = 300\<rparr>,
                \<lparr>summary_vid = 15, summary_addedAt = 200\<rparr>],
             has_more = True, vid_offset = 15, time_offset = 200\<rparr>"
  by (simp add: getContacts_def ex_api_def ex_contacts_recent_def pagination_def)

lemma ex_page2:
  "getContacts ex_api (Some 15) (Some 200) =
     Some \<lparr>page_contacts = [\<lparr>summary_vid = 7, summary_addedAt = 100\<rparr>],
             has_more = False, vid_offset = 7, time_offset = 100\<rparr>"
  by (simp add: getContacts_def ex_api_def ex_contacts_recent_def pagination_def)

lemma ex_details1:
  "getContactsDetailedInfo ex_api
     [\<lparr>summary_vid = 12, summary_addedAt = 300\<rparr>, \<lparr>summary_vid = 15, summary_addedAt = 200\<rparr>]
     = Some [ex_contact 12 300, ex_contact 15 200]"
  by (simp add: getContactsDetailedInfo_def ex_api_def ex_contact_batch_def ex_contact_def)

lemma ex_details2:
  "getContactsDetailedInfo ex_api [\<lparr>summary_vid = 7, summary_addedAt = 100\<rparr>]
     = Some [ex_contact 7 100]"
  by (simp add: getContactsDetailedInfo_def ex_api_def ex_contact_batch_def ex_contact_def)

lemma ex_formatContact: "formatContact ex_helpers ex_Date (ex_contact v t) = Inr (ex_row v)"
  by (simp add: ex_contact_def ex_direct_def ex_row_def formatContact_def
      form_submission_page_def Let_def formattedDate_def ex_Date_def withZeros_def padStart_def
      js_String_def digits.simps digit_def)

lemma ex_contact_fields: "vid (ex_contact v t) = v" "addedAt (ex_contact v t) = t"
  by (simp_all add: ex_contact_def)

section \<open>The claims\<close>

subsection \<open>C1: truncation of a page\<close>

text \<open>
  C1 says that a page is cut at the first record with the stop vid, otherwise at the first
  record with \<open>addedAt \<le> timeStop\<close>. On the first page of the example account, with
  \<open>timeStop = 250\<close> and no \<open>vidStop\<close>, the time stop matches at index \<open>1\<close> and the vid stop
  does not match; \<^verbatim>\<open>loopContacts\<close> halts, and it formats, sinks and returns both records of
  the page, not the prefix of length \<open>1\<close>: the second assignment to \<^verbatim>\<open>newContacts\<close> discards
  the slice that the first one took.
\<close>

theorem loopContacts_time_stop_keeps_whole_page:
  "findIndex (\<lambda>c. le_or_null (addedAt c) (Some 250)) [ex_contact 12 300, ex_contact 15 200] = 1
   \<and> findIndex (\<lambda>c. Some (vid c) = None) [ex_contact 12 300, ex_contact 15 200] = - 1
   \<and> loopContacts ex_api ex_helpers ex_Date None None None (Some 250) [] [] =
       Some (Some [ex_contact 12 300, ex_contact 15 200], [[ex_row 12, ex_row 15]])"
proof -
  have "loopContacts ex_api ex_helpers ex_Date None None None (Some 250) [] [] =
       Some (Some [ex_contact 12 300, ex_contact 15 200], [[ex_row 12, ex_row 15]])"
    by (subst loopContacts.simps)
       (simp add: ex_page1 ex_details1 ex_formatContact ex_contact_fields Let_def slice0_def
          le_or_null_def formatAndAppendToSheet_def)
  then show ?thesis
    by (simp add: le_or_null_def ex_contact_fields Let_def)
qed

subsection \<open>C2: the minimal record\<close>

text \<open>
  C2 as stated fails, in two ways. A contact with no candidate URL and no conversion event
  name is formatted to a record with the four keys \<open>id\<close>, \<open>analytics_source\<close>, \<open>hs_url\<close> and
  \<open>addedAt\<close>, not the three keys of the claim. And the code tests the property objects, not
  their values: a contact whose first-touch URL property exists with the value \<^verbatim>\<open>null\<close> has
  no candidate URL present, and is formatted to the record with nine keys.
\<close>

theorem formatContact_minimal_counterexample:
  "properties (ex_contact 51 300) ''hs_analytics_first_url'' = None
   \<and> properties (ex_contact 51 300) ''hs_analytics_last_url'' = None
   \<and> properties (ex_contact 51 300) ''hs_analytics_first_referrer'' = None
   \<and> properties (ex_contact 51 300) ''hs_analytics_last_referrer'' = None
   \<and> form_submissions (ex_contact 51 300) = Some []
   \<and> properties (ex_contact 51 300) ''first_conversion_event_name'' = None
   \<and> formatContact ex_helpers ex_Date (ex_contact 51 300) =
       Inr [(''id'', JNum 51), (''analytics_source'', JStr ''DIRECT_TRAFFIC''),
            (''hs_url'', JStr ''https://app.hubspot.com/contacts/6331207/contact/51''),
            (''addedAt'', JStr ''02/11/2020 - 09:05'')]
   \<and> filter spec_present (spec_candidates ex_null_url []) = []
   \<and> form_submissions ex_null_url = Some []
   \<and> properties ex_null_url ''first_conversion_event_name'' = None
   \<and> formatContact ex_helpers ex_Date ex_null_url =
       Inr [(''id'', JNum 57), (''analytics_source'', JStr ''DIRECT_TRAFFIC''),
            (''hs_url'', JStr ''https://app.hubspot.com/contacts/6331207/contact/57''),
            (''addedAt'', JStr ''02/11/2020 - 09:05''),
            (''institution'', JUndefined), (''utm_source'', JUndefined),
            (''utm_campaign'', JUndefined), (''hsa_grp'', JUndefined),
            (''utm_content'', JUndefined)]"
  by (simp add: ex_contact_def ex_direct_def ex_null_url_def formatContact_def
      form_submission_page_def Let_def hs_url_def formattedDate_def ex_Date_def withZeros_def
      padStart_def js_String_def digits.simps digit_def spec_present_def spec_candidates_def
      spread_def queryParams_def landingPageUrls_def and_value_def ex_helpers_def get_prop_def
      Object_prototype_def js_or_def)

text \<open>
  C2, amended: for every contact that has the \<open>hs_analytics_source\<close> property and a
  form-submissions array, that has none of the four properties \<open>hs_analytics_first_url\<close>,
  \<open>hs_analytics_last_url\<close>, \<open>hs_analytics_first_referrer\<close> and \<open>hs_analytics_last_referrer\<close>
  (the property itself is missing; one that exists with a null value counts as present
  here), whose first form submission is missing or has a falsy page URL, and that has no
  first conversion event name, \<^verbatim>\<open>formatContact\<close> returns exactly the record
  \<open>{id, analytics_source, hs_url, addedAt}\<close>, as a normal return.
\<close>

theorem formatContact_minimal_record:
  assumes "properties contact ''hs_analytics_first_url'' = None"
    and "properties contact ''hs_analytics_last_url'' = None"
    and "properties contact ''hs_analytics_first_referrer'' = None"
    and "properties contact ''hs_analytics_last_referrer'' = None"
    and "form_submissions contact = Some subs"
    and "case subs of [] \<Rightarrow> True | s # rest \<Rightarrow> \<not> truthy (page_url s)"
    and "properties contact ''first_conversion_event_name'' = None"
    and "properties contact ''hs_analytics_source'' = Some a"
  shows "formatContact H new_Date contact =
           Inr [(''id'', JNum (vid contact)),
                (''analytics_source'', a),
                (''hs_url'', JStr (hs_url (vid contact))),
                (''addedAt'', JStr (formattedDate new_Date (addedAt contact)))]"
proof -
  from assms(6) have "\<not> truthy (form_submission_page subs)"
    by (simp add: form_submission_page_def split: list.splits)
  with assms(1-4) have "\<not> candidate_present contact subs"
    by (simp add: candidate_present_def)
  with assms(8,5) show ?thesis
    by (rule formatContact_not_populated)
qed

theorem formatContact_minimal_record_witness:
  "formatContact ex_helpers ex_Date (ex_contact 51 300) =
     Inr [(''id'', JNum 51), (''analytics_source'', JStr ''DIRECT_TRAFFIC''),
          (''hs_url'', JStr (hs_url 51)),
          (''addedAt'', JStr (formattedDate ex_Date 300))]"
  using formatContact_minimal_record
    [of "ex_contact 51 300" "[]" "JStr ''DIRECT_TRAFFIC''" ex_helpers ex_Date]
  by (simp add: ex_contact_def ex_direct_def)

subsection \<open>C3: continuing and the returned sequence\<close>

text \<open>
  C3 says that a run returns the retained records of every processed page, so that a
  two-page run returns as many records as both pages retain. On the example account with
  \<open>timeStop = 150\<close> and no \<open>vidStop\<close>, the first page reports more data and matches no stop,
  so the run continues, as the claim says; the second page reports no more data and its
  only record matches the time stop, so the specification retains nothing of it, and the
  retained counts are \<open>2\<close> and \<open>0\<close>. \<^verbatim>\<open>loopContacts\<close> returns three records: the record of the
  second page is formatted, sunk and accumulated, because the second assignment to
  \<^verbatim>\<open>newContacts\<close> discards the time-stop slice (the defect of C1).
\<close>

theorem loopContacts_two_pages_time_stop:
  "spec_retained None (Some 150) [ex_contact 12 300, ex_contact 15 200] =
     [ex_contact 12 300, ex_contact 15 200]
   \<and> spec_retained None (Some 150) [ex_contact 7 100] = []
   \<and> loopContacts ex_api ex_helpers ex_Date None None None (Some 150) [] [] =
       Some (Some [ex_contact 12 300, ex_contact 15 200, ex_contact 7 100],
             [[ex_row 12, ex_row 15], [ex_row 7]])"
proof -
  have page2:
    "loopContacts ex_api ex_helpers ex_Date (Some 15) (Some 200) None (Some 150)
       [[ex_row 12, ex_row 15]] [ex_contact 12 300, ex_contact 15 200] =
     Some (Some [ex_contact 12 300, ex_contact 15 200, ex_contact 7 100],
           [[ex_row 12, ex_row 15], [ex_row 7]])"
    by (subst loopContacts.simps)
       (simp add: ex_page2 ex_details2 ex_formatContact ex_contact_fields Let_def slice0_def
          le_or_null_def formatAndAppendToSheet_def)
  have "loopContacts ex_api ex_helpers ex_Date None None None (Some 150) [] [] =
       Some (Some [ex_contact 12 300, ex_contact 15 200, ex_contact 7 100],
             [[ex_row 12, ex_row 15], [ex_row 7]])"
    by (subst loopContacts.simps)
       (simp add: ex_page1 ex_details1 ex_formatContact ex_contact_fields Let_def slice0_def
          le_or_null_def formatAndAppendToSheet_def page2)
  then show ?thesis
    by (simp add: spec_retained_def spec_effective_index_def spec_first_index_def
        ex_contact_fields Let_def)
qed

subsection \<open>C4: deals and the pipeline catalog\<close>

text \<open>
  C4 as stated fails: deal 900 of the example account names a stage that its pipeline does
  not have, and \<^verbatim>\<open>getDealsFromContact\<close> returns the deal, with an undefined stage.
\<close>

theorem getDealsFromContact_stage_counterexample:
  "getDealIdsFromContact ex_api 7 = Some [900, 901]
   \<and> getDeal ex_api 900 =
       Some \<lparr>deal_id = 900, pipeline_value = ''default'', dealstage_value = ''closedwon''\<rparr>
   \<and> ''closedwon'' \<notin> stageId ` set (stages ex_pipeline)
   \<and> getDealsFromContact ex_api 7 =
       Some [\<lparr>deal_id = 900, pipeline_value = ''default'', dealstage_value = ''closedwon'',
               pipeline = ex_pipeline, stage = None\<rparr>,
             \<lparr>deal_id = 901, pipeline_value = ''default'',
               dealstage_value = ''appointmentscheduled'', pipeline = ex_pipeline,
               stage = Some \<lparr>stageId = ''appointmentscheduled''\<rparr>\<rparr>]"
  by (simp add: getDealsFromContact_def getDealsFromContact_try_def getDealIdsFromContact_def
      getAllPipelines_def getDeal_def ex_api_def ex_deal_associations_def ex_deal_by_id_def
      ex_pipeline_def)

text \<open>
  C4, amended: when the association lookup, the catalog and every deal are fetched, then
  if some associated deal names a pipeline id that the catalog does not have,
  \<^verbatim>\<open>getDealsFromContact\<close> returns \<^verbatim>\<open>undefined\<close> (the exception is caught and logged inside);
  otherwise it returns one joined deal per associated deal id, in the order of the
  association lookup, where a deal whose stage id is not among the stages of its pipeline
  has an undefined stage.
\<close>

theorem getDealsFromContact_join:
  assumes "getDealIdsFromContact api contactId = Some dealIds"
    and "getAllPipelines api = Some pipelines"
    and "\<forall>dealId\<in>set dealIds. getDeal api dealId \<noteq> None"
  shows "if \<exists>dealId\<in>set dealIds. pipeline_missing api pipelines dealId
         then getDealsFromContact api contactId = None
         else \<exists>deals. getDealsFromContact api contactId = Some deals
                \<and> list_all2 (joined_deal api pipelines) dealIds deals"
proof (cases "\<exists>dealId\<in>set dealIds. pipeline_missing api pipelines dealId")
  case True
  then show ?thesis
    using assms(1,2) deals_loop_missing [OF True, of "[]"]
    by (simp add: getDealsFromContact_def getDealsFromContact_try_def)
next
  case False
  with assms(3)
  have "\<forall>dealId\<in>set dealIds. getDeal api dealId \<noteq> None \<and> \<not> pipeline_missing api pipelines dealId"
    by blast
  from deals_loop_joined [OF this, of "[]"] show ?thesis
    using assms(1,2) False
    by (auto simp: getDealsFromContact_def getDealsFromContact_try_def)
qed

theorem getDealsFromContact_join_witness:
  "getDealsFromContact ex_api 12 = None
   \<and> (\<exists>deals. getDealsFromContact ex_api 7 = Some deals
         \<and> list_all2 (joined_deal ex_api [ex_pipeline]) [900, 901] deals)"
  using getDealsFromContact_join [of ex_api 12 "[902]" "[ex_pipeline]"]
    getDealsFromContact_join [of ex_api 7 "[900, 901]" "[ex_pipeline]"]
  by (simp add: getDealIdsFromContact_def getAllPipelines_def getDeal_def ex_api_def
      ex_deal_associations_def ex_deal_by_id_def ex_pipeline_def pipeline_missing_def)

subsection \<open>C5: the Instagram exception\<close>

text \<open>
  C5: when the merged \<open>utm_source\<close> is \<open>facebook\<close> and the first referrer is exactly
  \<^verbatim>\<open>http://instagram.com/\<close>, the \<open>utm_source\<close> field of the returned record is still
  \<open>facebook\<close>; the override of the local variable changes nothing in the record, which has
  the nine keys of the populated record and no \<open>ad\<close> key.
\<close>

theorem formatContact_instagram_leaves_utm_source:
  assumes "properties contact ''hs_analytics_source'' = Some a"
    and "form_submissions contact = Some subs"
    and "get_prop (queryParams H (landingPageUrls (properties contact) subs)) ''utm_source''
           = JStr ''facebook''"
    and "properties contact ''hs_analytics_first_referrer'' = Some (JStr ''http://instagram.com/'')"
  shows "\<exists>obj. formatContact H new_Date contact = Inr obj
           \<and> map_of obj ''utm_source'' = Some (JStr ''facebook'')
           \<and> map fst obj =
               [''id'', ''analytics_source'', ''hs_url'', ''addedAt'', ''institution'',
                ''utm_source'', ''utm_campaign'', ''hsa_grp'', ''utm_content'']"
proof -
  have c: "candidate_present contact subs"
    using assms(4) by (simp add: candidate_present_def)
  have "formatContact H new_Date contact = Inr (populated H new_Date contact a subs)"
    using formatContact_populated [OF assms(1,2) c, of H new_Date] assms(3) by simp
  then show ?thesis
    using assms(3) by (simp add: populated_lookup populated_keys)
qed

theorem formatContact_instagram_witness:
  "properties ex_facebook ''first_conversion_event_name'' = Some (JStr ''Form A'')
   \<and> (\<exists>obj. formatContact ex_helpers ex_Date ex_facebook = Inr obj
           \<and> map_of obj ''utm_source'' = Some (JStr ''facebook'')
           \<and> map fst obj =
               [''id'', ''analytics_source'', ''hs_url'', ''addedAt'', ''institution'',
                ''utm_source'', ''utm_campaign'', ''hsa_grp'', ''utm_content''])"
  using formatContact_instagram_leaves_utm_source
    [of ex_facebook "JStr ''SOCIAL_MEDIA''" "[]" ex_helpers ex_Date]
  by (simp add: ex_facebook_def get_prop_def queryParams_def landingPageUrls_def and_value_def
      form_submission_page_def ex_helpers_def map_add_def)

subsection \<open>C6: the institution\<close>

text \<open>
  C6 says that a host name that the table does not have gives an undefined institution.
  The table is an object literal, and the lookup \<^verbatim>\<open>INSTITUTIONS[host]\<close> also answers the
  members that the literal inherits: for a contact whose last-touch URL is
  \<^verbatim>\<open>http://constructor/\<close>, of host name \<open>constructor\<close>, the specification's table gives
  undefined, and the \<open>institution\<close> field of the record that \<^verbatim>\<open>formatContact\<close> returns is the
  inherited member \<open>constructor\<close>, a function.
\<close>

theorem formatContact_institution_inherited_member:
  "properties ex_constructor_host ''hs_analytics_last_url'' = Some (JStr ''http://constructor/'')
   \<and> getHostName ex_helpers (JStr ''http://constructor/'') = ''constructor''
   \<and> spec_institution ''constructor'' = JUndefined
   \<and> formatContact ex_helpers ex_Date ex_constructor_host =
       Inr [(''id'', JNum 58), (''analytics_source'', JStr ''REFERRALS''),
            (''hs_url'', JStr ''https://app.hubspot.com/contacts/6331207/contact/58''),
            (''addedAt'', JStr ''02/11/2020 - 09:05''),
            (''institution'', JInherited ''constructor''), (''utm_source'', JUndefined),
            (''utm_campaign'', JUndefined), (''hsa_grp'', JUndefined),
            (''utm_content'', JUndefined)]"
  by (simp add: ex_constructor_host_def formatContact_def form_submission_page_def Let_def
      hs_url_def formattedDate_def ex_Date_def withZeros_def padStart_def js_String_def
      digits.simps digit_def spec_institution_def spread_def queryParams_def
      landingPageUrls_def and_value_def ex_helpers_def get_prop_def Object_prototype_def
      INSTITUTIONS_def js_or_def)

theorem formatContact_institution_inherited_witness:
  "\<exists>obj. formatContact ex_helpers ex_Date ex_constructor_host = Inr obj
     \<and> map_of obj ''institution'' = Some (JInherited ''constructor'')
     \<and> map_of obj ''institution'' \<noteq> Some (spec_institution ''constructor'')"
  using formatContact_institution_inherited_member by simp

subsection \<open>C7: the merge of the query parameters\<close>

text \<open>
  C7: when at least one candidate URL is present, \<open>utm_source\<close>, \<open>utm_campaign\<close> and
  \<open>utm_content\<close> of the returned record are the like-named parameters, and \<open>hsa_grp\<close> is
  the parameter \<open>hsa_grp\<close> with \<open>ad_group\<close> as its fallback, of the specification's merge:
  the query parameters of the present candidates (a \<^verbatim>\<open>null\<close> or \<^verbatim>\<open>undefined\<close> one is
  skipped), taken in the order first-touch URL, last-touch URL, first referrer, last
  referrer, page URL of the first form submission, a later candidate overwriting an
  earlier one. The helper answers the empty object for \<^verbatim>\<open>undefined\<close> and \<^verbatim>\<open>null\<close>, as its
  interface says.
\<close>

theorem formatContact_merges_candidates_in_order:
  assumes "getURLParams H JUndefined = Map.empty"
    and "getURLParams H JNull = Map.empty"
    and "properties contact ''hs_analytics_source'' = Some a"
    and "form_submissions contact = Some subs"
    and "candidate_present contact subs"
  shows "\<exists>obj. formatContact H new_Date contact = Inr obj
           \<and> map_of obj ''utm_source''
               = Some (spec_param (spec_merged_params H (spec_candidates contact subs))
                         ''utm_source'')
           \<and> map_of obj ''utm_campaign''
               = Some (spec_param (spec_merged_params H (spec_candidates contact subs))
                         ''utm_campaign'')
           \<and> map_of obj ''utm_content''
               = Some (spec_param (spec_merged_params H (spec_candidates contact subs))
                         ''utm_content'')
           \<and> map_of obj ''hsa_grp''
               = Some (spec_hsa_grp (spec_merged_params H (spec_candidates contact subs)))"
  using formatContact_populated [OF assms(3,4,5), of H new_Date]
  by (auto simp: populated_lookup queryParams_spec [OF assms(1,2)] landingPageUrls_spec
      get_prop_spec map_add_def split: option.splits)

text \<open>
  Two contacts. The first has all five candidates: \<open>utm_source\<close> is in the first, the
  second and the fifth and resolves to the fifth (\<open>e\<close>), \<open>utm_campaign\<close> is in the second
  and the third and resolves to the third (\<open>y\<close>), \<open>utm_content\<close> is in the third and the
  fourth and resolves to the fourth (\<open>c2\<close>), and \<open>hsa_grp\<close> (\<open>h\<close>) wins over \<open>ad_group\<close>. The
  second has the first-touch URL with \<open>utm_source=a\<close> and the last-touch URL with
  \<open>utm_source=b\<close>, which resolve to \<open>b\<close>, and no \<open>hsa_grp\<close>, so that \<open>ad_group\<close> is taken.
\<close>

theorem formatContact_merges_witness:
  "(\<exists>obj. formatContact ex_helpers ex_Date ex_five_urls = Inr obj
       \<and> map_of obj ''utm_source'' = Some (JStr ''e'')
       \<and> map_of obj ''utm_campaign'' = Some (JStr ''y'')
       \<and> map_of obj ''utm_content'' = Some (JStr ''c2'')
       \<and> map_of obj ''hsa_grp'' = Some (JStr ''h''))
   \<and> (\<exists>obj. formatContact ex_helpers ex_Date ex_two_urls = Inr obj
       \<and> map_of obj ''utm_source'' = Some (JStr ''b'')
       \<and> map_of obj ''utm_campaign'' = Some (JStr ''x'')
       \<and> map_of obj ''utm_content'' = Some JUndefined
       \<and> map_of obj ''hsa_grp'' = Some (JStr ''g''))"
  using formatContact_merges_candidates_in_order
    [of ex_helpers ex_five_urls "JStr ''PAID_SEARCH''"
       "[\<lparr>page_url = JStr ''https://dmi.espm.br/form?utm_source=e&hsa_grp=h''\<rparr>]" ex_Date]
    formatContact_merges_candidates_in_order
    [of ex_helpers ex_two_urls "JStr ''PAID_SEARCH''" "[]" ex_Date]
  by (simp add: ex_five_urls_def ex_two_urls_def candidate_present_def ex_helpers_def
      spec_merged_params_def spec_candidates_def spec_present_def spec_param_def
      spec_hsa_grp_def map_add_def)

subsection \<open>C8: the LinkedIn exception\<close>

text \<open>
  C8: when the resolved source is \<open>linkedin\<close>, the returned record has the \<open>ad\<close> field with
  the value of the first conversion event name if that property is present, and no \<open>ad\<close>
  key if it is absent.
\<close>

theorem formatContact_linkedin_ad:
  assumes "properties contact ''hs_analytics_source'' = Some a"
    and "form_submissions contact = Some subs"
    and "candidate_present contact subs"
    and "get_prop (queryParams H (landingPageUrls (properties contact) subs)) ''utm_source''
           = JStr ''linkedin''"
  shows "\<exists>obj. formatContact H new_Date contact = Inr obj
           \<and> (case properties contact ''first_conversion_event_name'' of
                 Some v \<Rightarrow> map_of obj ''ad'' = Some v
               | None \<Rightarrow> ''ad'' \<notin> set (map fst obj))"
  using formatContact_populated [OF assms(1,2,3), of H new_Date] assms(4)
  by (auto simp: populated_lookup populated_keys map_add_def split: option.splits)

theorem formatContact_linkedin_witness:
  "\<exists>obj. formatContact ex_helpers ex_Date ex_linkedin = Inr obj
     \<and> map_of obj ''ad'' = Some (JStr ''Lead Gen Form'')"
  using formatContact_linkedin_ad
    [of ex_linkedin "JStr ''PAID_SOCIAL''" "[]" ex_helpers ex_Date]
  by (simp add: ex_linkedin_def candidate_present_def get_prop_def queryParams_def landingPageUrls_def
      and_value_def form_submission_page_def ex_helpers_def map_add_def)

subsection \<open>C9: the date a contact was added\<close>



subsection \<open>C10: what \<^verbatim>\<open>formatContact\<close> requires\<close>

text \<open>
  C10: \<^verbatim>\<open>formatContact\<close> throws exactly when the contact lacks the
  \<open>hs_analytics_source\<close> property or the form-submissions array, and every record it
  returns has the \<open>analytics_source\<close> field with the value of that property.
\<close>

theorem formatContact_dereferences_source_and_submissions:
  "(formatContact H new_Date contact = Inl TypeError \<longleftrightarrow>
      properties contact ''hs_analytics_source'' = None \<or> form_submissions contact = None)
   \<and> (\<forall>obj. formatContact H new_Date contact = Inr obj \<longrightarrow>
          (\<exists>v. properties contact ''hs_analytics_source'' = Some v
               \<and> map_of obj ''analytics_source'' = Some v))"
proof (intro conjI allI impI)
  show "formatContact H new_Date contact = Inl TypeError \<longleftrightarrow>
      properties contact ''hs_analytics_source'' = None \<or> form_submissions contact = None"
    by (rule formatContact_throws)
next
  fix obj
  assume r: "formatContact H new_Date contact = Inr obj"
  then have "formatContact H new_Date contact \<noteq> Inl TypeError" by simp
  then obtain a subs where a: "properties contact ''hs_analytics_source'' = Some a"
    and s: "form_submissions contact = Some subs"
    by (auto simp: formatContact_throws)
  have "map_of obj ''analytics_source'' = Some a"
  proof (cases "candidate_present contact subs")
    case True
    from formatContact_populated [OF a s True, of H new_Date] r show ?thesis
      by (auto simp: populated_lookup map_add_def split: if_splits option.splits)
  next
    case False
    from formatContact_not_populated [OF a s False, of H new_Date] r show ?thesis
      by auto
  qed
  with a show "\<exists>v. properties contact ''hs_analytics_source'' = Some v
                 \<and> map_of obj ''analytics_source'' = Some v"
    by simp
qed

theorem formatContact_dereferences_witness:
  "properties ex_no_source ''hs_analytics_source'' = None
   \<and> formatContact ex_helpers ex_Date ex_no_source = Inl TypeError
   \<and> formatContact ex_helpers ex_Date (ex_contact 51 300) \<noteq> Inl TypeError"
  using formatContact_dereferences_source_and_submissions [of ex_helpers ex_Date ex_no_source]
    formatContact_dereferences_source_and_submissions [of ex_helpers ex_Date "ex_contact 51 300"]
  by (simp add: ex_no_source_def ex_contact_def ex_direct_def)

end
